theory Spec2Isabelle
  imports Complex_Main "HOL-Library.Word"
begin

section \<open>Values and exceptions\<close>

text \<open>
  The Python values that cross the HTTP boundary: what \<^verbatim>\<open>response.json()\<close> can decode
  (null, booleans, numbers, strings, arrays, objects with string keys), and the values the
  client functions build themselves (\<^verbatim>\<open>None\<close>, a tuple, a byte string).  A coroutine
  object is the value of a call to an \<^verbatim>\<open>async def\<close> function that has not been awaited.
\<close>

type_synonym bytes = "8 word list"

datatype pyval =
    PNone
  | PBool bool
  | PInt int
  | PFloat real
  | PStr string
  | PBytes bytes
  | PList "pyval list"
  | PTuple "pyval list"
  | PDict "(string \<times> pyval) list"
  | PCoroutine

text \<open>
  An exception, as far as the handlers of this program look at it: the name of its class,
  whether it passes \<^verbatim>\<open>isinstance(e, requests.exceptions.RequestException)\<close> and
  \<^verbatim>\<open>isinstance(e, requests.exceptions.JSONDecodeError)\<close> (the class hierarchy lives in the
  requests library, so the two answers are carried by the value), and \<^verbatim>\<open>str(e)\<close>.
  The message texts of the exceptions that Python itself raises are abbreviated.
\<close>

record exn =
  exn_class :: string
  is_RequestException :: bool
  is_JSONDecodeError :: bool
  exn_str :: string

definition TypeError :: "string \<Rightarrow> exn" where
  "TypeError msg =
     \<lparr>exn_class = ''TypeError'', is_RequestException = False, is_JSONDecodeError = False,
      exn_str = msg\<rparr>"

definition KeyError :: "string \<Rightarrow> exn" where
  "KeyError k =
     \<lparr>exn_class = ''KeyError'', is_RequestException = False, is_JSONDecodeError = False,
      exn_str = [CHR 0x27] @ k @ [CHR 0x27]\<rparr>"

definition ValueError :: "string \<Rightarrow> exn" where
  "ValueError msg =
     \<lparr>exn_class = ''ValueError'', is_RequestException = False, is_JSONDecodeError = False,
      exn_str = msg\<rparr>"

definition UnboundLocalError :: "string \<Rightarrow> exn" where
  "UnboundLocalError msg =
     \<lparr>exn_class = ''UnboundLocalError'', is_RequestException = False,
      is_JSONDecodeError = False, exn_str = msg\<rparr>"

text \<open>
  Truthiness, as \<^verbatim>\<open>not questions_data\<close> tests it, and whether \<^verbatim>\<open>len\<close> applies.
\<close>

fun truthy :: "pyval \<Rightarrow> bool" where
  "truthy PNone = False"
| "truthy (PBool b) = b"
| "truthy (PInt n) = (n \<noteq> 0)"
| "truthy (PFloat x) = (x \<noteq> 0)"
| "truthy (PStr s) = (s \<noteq> [])"
| "truthy (PBytes b) = (b \<noteq> [])"
| "truthy (PList xs) = (xs \<noteq> [])"
| "truthy (PTuple xs) = (xs \<noteq> [])"
| "truthy (PDict kvs) = (kvs \<noteq> [])"
| "truthy PCoroutine = True"

fun has_len :: "pyval \<Rightarrow> bool" where
  "has_len (PStr s) = True"
| "has_len (PBytes b) = True"
| "has_len (PList xs) = True"
| "has_len (PTuple xs) = True"
| "has_len (PDict kvs) = True"
| "has_len v = False"

section \<open>The Question Service client (gaia\_agent/api.py)\<close>

text \<open>
  A response object of the requests library, by what the client reads from it:
  \<^verbatim>\<open>raise_for_status()\<close> raises or not, \<^verbatim>\<open>json()\<close> raises or decodes the body,
  \<^verbatim>\<open>content\<close> and \<^verbatim>\<open>text\<close> (here \<open>response_text\<close>).  The outcome of one HTTP call
  is \<open>exn + response\<close>: \<open>Inl e\<close> when \<^verbatim>\<open>requests.get\<close> or \<^verbatim>\<open>requests.post\<close>
  itself raises \<open>e\<close>.
  The diagnostic \<^verbatim>\<open>print\<close> calls of this module are left out, except where one of
  them can raise.
\<close>

record response =
  raise_for_status :: "exn option"
  json :: "exn + pyval"
  content :: bytes
  response_text :: string

text \<open>
  The three \<^verbatim>\<open>except\<close> clauses of \<^verbatim>\<open>fetch_questions\<close>, tried in the source's order.
  The first argument is the local \<^verbatim>\<open>response\<close> when it is bound.  The second clause
  prints \<^verbatim>\<open>response.text[:500]\<close>, which raises \<^verbatim>\<open>UnboundLocalError\<close> when
  \<^verbatim>\<open>requests.get\<close> raised before the assignment.
\<close>

definition fetch_questions_except :: "response option \<Rightarrow> exn \<Rightarrow> exn + pyval" where
  "fetch_questions_except resp e =
     (if is_RequestException e then
        Inr (PTuple [PStr (''Error fetching questions: '' @ exn_str e), PNone])
      else if is_JSONDecodeError e then
        (case resp of
           None \<Rightarrow> Inl (UnboundLocalError ''response'')
         | Some r \<Rightarrow> Inr PNone)
      else Inr PNone)"

text \<open>
  \<^verbatim>\<open>fetch_questions(timeout)\<close>; the argument is the outcome of
  \<^verbatim>\<open>requests.get(QUESTIONS_URL, timeout=timeout)\<close>.  The print of
  \<^verbatim>\<open>len(questions_data)\<close> is inside the \<^verbatim>\<open>try\<close>: a truthy value without a length
  (a number, \<^verbatim>\<open>True\<close>) raises \<^verbatim>\<open>TypeError\<close> there, which the last clause turns
  into \<^verbatim>\<open>None\<close>.
\<close>

definition fetch_questions :: "exn + response \<Rightarrow> exn + pyval" where
  "fetch_questions got =
     (case got of
        Inl e \<Rightarrow> fetch_questions_except None e
      | Inr r \<Rightarrow>
          (case raise_for_status r of
             Some e \<Rightarrow> fetch_questions_except (Some r) e
           | None \<Rightarrow>
               (case json r of
                  Inl e \<Rightarrow> fetch_questions_except (Some r) e
                | Inr questions_data \<Rightarrow>
                    if \<not> truthy questions_data then Inr PNone
                    else if \<not> has_len questions_data then
                      fetch_questions_except (Some r) (TypeError ''object has no len()'')
                    else Inr questions_data)))"

text \<open>
  \<^verbatim>\<open>submit_answers(username, agent_code, answers)\<close>.  \<open>post\<close> is
  \<^verbatim>\<open>requests.post(SUBMIT_URL, json=data)\<close> as a function of \<open>data\<close>; all three clauses
  return \<^verbatim>\<open>None\<close>, the second after printing \<^verbatim>\<open>response.text[:500]\<close>.
\<close>

definition submit_data :: "string \<Rightarrow> string \<Rightarrow> pyval \<Rightarrow> pyval" where
  "submit_data username agent_code answers =
     PDict [(''username'', PStr username), (''agent_code'', PStr agent_code),
            (''answers'', answers)]"

definition submit_answers_except :: "response option \<Rightarrow> exn \<Rightarrow> exn + pyval" where
  "submit_answers_except resp e =
     (if is_RequestException e then Inr PNone
      else if is_JSONDecodeError e then
        (case resp of
           None \<Rightarrow> Inl (UnboundLocalError ''response'')
         | Some r \<Rightarrow> Inr PNone)
      else Inr PNone)"

definition submit_answers ::
  "(pyval \<Rightarrow> exn + response) \<Rightarrow> string \<Rightarrow> string \<Rightarrow> pyval \<Rightarrow> exn + pyval" where
  "submit_answers post username agent_code answers =
     (let data = submit_data username agent_code answers in
      case post data of
        Inl e \<Rightarrow> submit_answers_except None e
      | Inr r \<Rightarrow>
          (case raise_for_status r of
             Some e \<Rightarrow> submit_answers_except (Some r) e
           | None \<Rightarrow>
               (case json r of
                  Inl e \<Rightarrow> submit_answers_except (Some r) e
                | Inr v \<Rightarrow> Inr v)))"

text \<open>
  \<^verbatim>\<open>get_file(task_id)\<close>; the argument is the outcome of
  \<^verbatim>\<open>requests.get(f"{FILES_URL}/{task_id}")\<close>.  The only clause catches
  \<^verbatim>\<open>requests.RequestException\<close>; any other exception propagates.  \<open>None\<close> is Python's
  \<^verbatim>\<open>None\<close>, \<open>Some b\<close> the bytes of \<^verbatim>\<open>response.content\<close>.
\<close>

definition get_file_except :: "exn \<Rightarrow> exn + bytes option" where
  "get_file_except e = (if is_RequestException e then Inr None else Inl e)"

definition get_file :: "exn + response \<Rightarrow> exn + bytes option" where
  "get_file got =
     (case got of
        Inl e \<Rightarrow> get_file_except e
      | Inr r \<Rightarrow>
          (case raise_for_status r of
             Some e \<Rightarrow> get_file_except e
           | None \<Rightarrow> Inr (Some (content r))))"

section \<open>The prompt template (gaia\_agent/prompts.py)\<close>

text \<open>
  \<^verbatim>\<open>general_instructions.format(question=question)\<close>: the template has the single field
  \<^verbatim>\<open>{question}\<close> and no other brace, so formatting a string puts it between the text
  before the field and the text after it.
\<close>

definition nl :: string where
  "nl = [CHR 0x0A]"

definition fence :: string where
  "fence = [CHR 0x60, CHR 0x60, CHR 0x60]"

definition general_instructions_before :: string where
  "general_instructions_before =
     ''You are a general AI assistant and you must answer ONE specific question.'' @ nl @
     ''The question is:'' @ nl @ nl @ fence @ nl"

definition general_instructions_after :: string where
  "general_instructions_after =
     nl @ fence @ nl @ nl @
     ''## Final Answer Format'' @ nl @
     ''YOUR FINAL ANSWER must be one of the following:'' @ nl @
     ''- A single number, OR'' @ nl @
     ''- As few words as possible, OR'' @ nl @
     ''- A comma-separated list of numbers and/or strings.'' @ nl @ nl @
     ''Depending on the answer, you must take care of the following:'' @ nl @
     ''- If the answer is a number, avoid using separators or units unless specified otherwise.'' @ nl @
     ''- If the answer is a string write the digits in plain text and avoid using articles or abbreviations unless specified otherwise.'' @ nl @
     ''- If the answer is a comma-separated list, apply the above rules depending of whether the element to be put in the list is a number or a string.'' @ nl"

definition general_instructions_format :: "string \<Rightarrow> string" where
  "general_instructions_format question =
     general_instructions_before @ question @ general_instructions_after"

section \<open>The agent runner (gaia\_agent/agent.py)\<close>

text \<open>
  The state the runner works on.  Text streams are objects with identity: \<open>streams\<close>
  holds the text written so far to each stream object, \<open>sys_stdout\<close> is the index of the
  object that \<^verbatim>\<open>sys.stdout\<close> is bound to, and \<open>llm\<close> is whatever state the external
  agent loop and its language model keep between calls.
\<close>

record 'l world =
  sys_stdout :: nat
  streams :: "string list"
  llm :: 'l

text \<open>
  The external ReAct loop, \<^verbatim>\<open>ReActAgent.achat\<close>, is not part of the repository: it is a
  parameter.  One awaited call gets the prompt and the loop's state, and yields the chunks
  of text it prints (\<^verbatim>\<open>verbose=True\<close>), in order, then either raises or returns the
  text of \<^verbatim>\<open>response.response\<close>, and the loop's new state.  The loop prints with
  \<^verbatim>\<open>print\<close>, that is to the object \<^verbatim>\<open>sys.stdout\<close> is bound to at that moment, and
  does not rebind \<^verbatim>\<open>sys.stdout\<close> itself.
\<close>

type_synonym 'l react_agent = "string \<Rightarrow> 'l \<Rightarrow> (string list \<times> (exn + string)) \<times> 'l"

record 'l GAIAAgent =
  agent :: "'l react_agent"

definition print_stdout :: "string \<Rightarrow> 'l world \<Rightarrow> 'l world" where
  "print_stdout s w =
     w\<lparr>streams := (streams w)[sys_stdout w := streams w ! sys_stdout w @ s]\<rparr>"

fun print_all :: "string list \<Rightarrow> 'l world \<Rightarrow> 'l world" where
  "print_all [] w = w"
| "print_all (s # ss) w = print_all ss (print_stdout s w)"

text \<open>\<^verbatim>\<open>await self.agent.achat(prompt)\<close>, run to completion.\<close>

definition await_achat ::
  "'l GAIAAgent \<Rightarrow> string \<Rightarrow> 'l world \<Rightarrow> (exn + string) \<times> 'l world" where
  "await_achat self prompt w =
     (case agent self prompt (llm w) of
        ((printed, result), l') \<Rightarrow> (result, print_all printed (w\<lparr>llm := l'\<rparr>)))"

text \<open>
  The configuration dictionary read through the spec's Configuration type: a key that is
  absent is \<open>None\<close>, a key that is present holds a string (a number for the temperature).
\<close>

record config =
  provider :: "string option"
  model_name :: "string option"
  temperature :: "real option"
  username :: "string option"
  agent_code :: "string option"

text \<open>
  The constructors of the llama\_index library and the process environment, as parameters:
  each constructor may raise.  \<open>'c\<close> is the type of a language-model client.
\<close>

record ('c, 'l) llama_index =
  GoogleGenAI :: "string \<Rightarrow> string option \<Rightarrow> real option \<Rightarrow> exn + 'c"
  OpenAI :: "string \<Rightarrow> string option \<Rightarrow> real option \<Rightarrow> exn + 'c"
  ReActAgent :: "'c \<Rightarrow> exn + 'l react_agent"
  environ :: "string \<rightharpoonup> string"

text \<open>\<^verbatim>\<open>config.get(key, default)\<close>.\<close>

definition config_get :: "'a option \<Rightarrow> 'a \<Rightarrow> 'a" where
  "config_get entry dflt = (case entry of None \<Rightarrow> dflt | Some v \<Rightarrow> v)"

text \<open>\<^verbatim>\<open>GAIAAgent.__init__(config)\<close>.\<close>

definition GAIAAgent_init :: "('c, 'l) llama_index \<Rightarrow> config \<Rightarrow> exn + 'l GAIAAgent" where
  "GAIAAgent_init lib cfg =
     (let prov = config_get (provider cfg) [];
          model = config_get (model_name cfg) [];
          temp = temperature cfg;
          llm_client =
            (if prov = ''gemini'' then
               GoogleGenAI lib model (environ lib ''GEMINI_API_KEY'') temp
             else if prov = ''openai'' then
               OpenAI lib model (environ lib ''OPENAI_API_KEY'') temp
             else Inl (ValueError (''Unsupported provider: '' @ prov)))
      in case llm_client of
           Inl e \<Rightarrow> Inl e
         | Inr c \<Rightarrow>
             (case ReActAgent lib c of
                Inl e \<Rightarrow> Inl e
              | Inr a \<Rightarrow> Inr \<lparr>agent = a\<rparr>))"

text \<open>
  \<^verbatim>\<open>await GAIAAgent.run(question, return_reasoning_process)\<close>, run to completion:
  \<open>Inl e\<close> when the call raises \<open>e\<close>, \<open>Inr (response, reasoning)\<close> when it returns.
  \<^verbatim>\<open>io.StringIO()\<close> makes a new, empty stream object, here the next free index.  The
  \<^verbatim>\<open>finally\<close> clause rebinds \<^verbatim>\<open>sys.stdout\<close> on both ways out of the \<^verbatim>\<open>try\<close>.
\<close>

definition GAIAAgent_run ::
  "'l GAIAAgent \<Rightarrow> string \<Rightarrow> bool \<Rightarrow> 'l world \<Rightarrow> (exn + string \<times> string) \<times> 'l world" where
  "GAIAAgent_run self question return_reasoning_process w =
     (let prompt = general_instructions_format question in
      if return_reasoning_process then
        (let old_stdout = sys_stdout w;
             new_stdout = length (streams w);
             w1 = w\<lparr>streams := streams w @ [[]], sys_stdout := new_stdout\<rparr>
         in case await_achat self prompt w1 of
              (result, w2) \<Rightarrow>
                (let w3 = w2\<lparr>sys_stdout := old_stdout\<rparr> in
                 case result of
                   Inl e \<Rightarrow> (Inl e, w3)
                 | Inr response \<Rightarrow>
                     (let captured_output = streams w3 ! new_stdout
                      in (Inr (response, captured_output), w3))))
      else
        (case await_achat self prompt w of
           (result, w1) \<Rightarrow>
             (case result of
                Inl e \<Rightarrow> (Inl e, w1)
              | Inr response \<Rightarrow> (Inr (response, []), w1))))"

section \<open>The batch orchestrator (main.py)\<close>

text \<open>
  A question and an answer record.  The orchestrator reads the two entries
  \<^verbatim>\<open>"task_id"\<close> and \<^verbatim>\<open>"question"\<close> of each question dictionary, both strings in the
  spec's data model; the answer's \<^verbatim>\<open>"task_id"\<close> entry is the field \<open>answer_task_id\<close>.
\<close>

record question =
  task_id :: string
  question :: string

record answer =
  answer_task_id :: string
  submitted_answer :: string
  reasoning_trace :: string

text \<open>
  \<^verbatim>\<open>await answer_questions(agent, questions)\<close>: the loop appends one answer per question;
  an exception of the runner leaves the loop and the function.
\<close>

fun answer_loop ::
  "'l GAIAAgent \<Rightarrow> question list \<Rightarrow> answer list \<Rightarrow> 'l world \<Rightarrow>
     (exn + answer list) \<times> 'l world" where
  "answer_loop self [] answers w = (Inr answers, w)"
| "answer_loop self (question_dict # rest) answers w =
     (let query = question question_dict in
      case GAIAAgent_run self query True w of
        (Inl e, w') \<Rightarrow> (Inl e, w')
      | (Inr (response, reasoning_process), w') \<Rightarrow>
          (let tid = task_id question_dict;
               ans = \<lparr>answer_task_id = tid, submitted_answer = response,
                      reasoning_trace = reasoning_process\<rparr>
           in answer_loop self rest (answers @ [ans]) w'))"

definition answer_questions ::
  "'l GAIAAgent \<Rightarrow> question list \<Rightarrow> 'l world \<Rightarrow> (exn + answer list) \<times> 'l world" where
  "answer_questions self questions w = answer_loop self questions [] w"

section \<open>The file materializer and the entry point (main.py)\<close>

text \<open>
  \<^verbatim>\<open>download_questions_and_files\<close> works on whatever \<^verbatim>\<open>fetch_questions\<close> returned, so
  it is modelled on values: \<open>getitem v k\<close> is \<^verbatim>\<open>v[k]\<close> for a string key, \<open>iter v\<close> the
  elements a \<^verbatim>\<open>for\<close> loop over \<open>v\<close> visits, \<open>hashable v\<close> whether \<open>v\<close> can be a
  dictionary key.  The texts of the \<^verbatim>\<open>TypeError\<close> messages are abbreviated.
\<close>

fun getitem :: "pyval \<Rightarrow> string \<Rightarrow> exn + pyval" where
  "getitem (PDict kvs) k =
     (case map_of kvs k of None \<Rightarrow> Inl (KeyError k) | Some v \<Rightarrow> Inr v)"
| "getitem (PStr s) k = Inl (TypeError ''string indices must be integers'')"
| "getitem (PBytes b) k = Inl (TypeError ''byte indices must be integers or slices'')"
| "getitem (PList xs) k = Inl (TypeError ''list indices must be integers or slices'')"
| "getitem (PTuple xs) k = Inl (TypeError ''tuple indices must be integers or slices'')"
| "getitem v k = Inl (TypeError ''object is not subscriptable'')"

fun iter :: "pyval \<Rightarrow> exn + pyval list" where
  "iter (PList xs) = Inr xs"
| "iter (PTuple xs) = Inr xs"
| "iter (PDict kvs) = Inr (map (\<lambda>kv. PStr (fst kv)) kvs)"
| "iter (PStr s) = Inr (map (\<lambda>c. PStr [c]) s)"
| "iter (PBytes b) = Inr (map (\<lambda>x. PInt (uint x)) b)"
| "iter v = Inl (TypeError ''object is not iterable'')"

fun hashable :: "pyval \<Rightarrow> bool" where
  "hashable (PList xs) = False"
| "hashable (PDict kvs) = False"
| "hashable (PTuple xs) = list_all hashable xs"
| "hashable v = True"

text \<open>
  The dictionary \<^verbatim>\<open>files\<close>: task id to \<^verbatim>\<open>get_file\<close>'s result (\<open>None\<close> inside
  \<open>Some\<close> is Python's \<^verbatim>\<open>None\<close>).  It is only ever looked up at string keys, where
  Python's key equality is equality of the strings.  The first loop of
  \<^verbatim>\<open>download_questions_and_files\<close>; \<open>get\<close> gives, for a task id, the outcome of
  \<^verbatim>\<open>requests.get(f"{FILES_URL}/{task_id}")\<close>.
\<close>

type_synonym files = "pyval \<rightharpoonup> bytes option"

fun fetch_files :: "(pyval \<Rightarrow> exn + response) \<Rightarrow> pyval list \<Rightarrow> files \<Rightarrow> exn + files" where
  "fetch_files get [] files = Inr files"
| "fetch_files get (q # rest) files =
     (case getitem q ''task_id'' of
        Inl e \<Rightarrow> Inl e
      | Inr tid \<Rightarrow>
          (case get_file (get tid) of
             Inl e \<Rightarrow> Inl e
           | Inr file \<Rightarrow>
               if \<not> hashable tid then Inl (TypeError ''unhashable type'')
               else fetch_files get rest (files(tid \<mapsto> file))))"

text \<open>The static table \<^verbatim>\<open>file_names\<close>, in the order of the dictionary literal.\<close>

definition file_names :: "(string \<times> string) list" where
  "file_names =
     [(''cca530fc-4052-43b2-b130-b30968d8aa44'', ''chess_position.jpg''),
      (''99c9cc74-fdc8-46c6-8f8d-3ce2d3bfeea3'', ''Strawberry pie.mp3''),
      (''f918266a-b3e0-4914-865d-4faa564f1aef'', ''python_code.py''),
      (''1f975693-876d-457b-a649-393859e79bf3'', ''Homework.mp3''),
      (''7bd855d8-463d-4ed5-93ca-5fe35145f733'', ''menu_items.xlsx'')]"

text \<open>
  The working directory as a map from path to file content; the directory
  \<^verbatim>\<open>files/\<close> is taken to exist and to be writable.  The second loop:
  \<^verbatim>\<open>files[task_id]\<close> raises \<^verbatim>\<open>KeyError\<close> for a task id that was not fetched;
  \<^verbatim>\<open>open(path, "wb")\<close> creates or empties the file; \<^verbatim>\<open>f.write(None)\<close> raises
  \<^verbatim>\<open>TypeError\<close>.  The result is the exception raised, if any, and the directory.
\<close>

type_synonym disk = "string \<rightharpoonup> bytes"

fun write_files :: "(string \<times> string) list \<Rightarrow> files \<Rightarrow> disk \<Rightarrow> exn option \<times> disk" where
  "write_files [] files d = (None, d)"
| "write_files ((tid, file_name) # rest) files d =
     (case files (PStr tid) of
        None \<Rightarrow> (Some (KeyError tid), d)
      | Some bytes_sequence \<Rightarrow>
          (let path = ''files/'' @ file_name;
               d1 = d(path \<mapsto> [])
           in case bytes_sequence of
                None \<Rightarrow> (Some (TypeError ''a bytes-like object is required''), d1)
              | Some b \<Rightarrow> write_files rest files (d1(path \<mapsto> b))))"

text \<open>
  \<^verbatim>\<open>download_questions_and_files()\<close>; \<open>got\<close> is the outcome of the request for the
  questions.
\<close>

definition download_questions_and_files ::
  "exn + response \<Rightarrow> (pyval \<Rightarrow> exn + response) \<Rightarrow> disk \<Rightarrow> (exn + pyval) \<times> disk" where
  "download_questions_and_files got get d =
     (case fetch_questions got of
        Inl e \<Rightarrow> (Inl e, d)
      | Inr questions \<Rightarrow>
          (case iter questions of
             Inl e \<Rightarrow> (Inl e, d)
           | Inr qs \<Rightarrow>
               (case fetch_files get qs Map.empty of
                  Inl e \<Rightarrow> (Inl e, d)
                | Inr files \<Rightarrow>
                    (case write_files file_names files d of
                       (Some e, d') \<Rightarrow> (Inl e, d')
                     | (None, d') \<Rightarrow> (Inr questions, d')))))"

text \<open>
  The call expression \<^verbatim>\<open>answer_questions(agent, questions)\<close>.  \<^verbatim>\<open>answer_questions\<close> is
  an \<^verbatim>\<open>async def\<close>: calling it runs none of its body and yields a coroutine object;
  the body (\<open>answer_questions\<close> above) runs only when the coroutine is awaited or given
  to an event loop.
\<close>

definition call_answer_questions :: "'l GAIAAgent \<Rightarrow> pyval \<Rightarrow> pyval" where
  "call_answer_questions self questions = PCoroutine"

text \<open>
  What the entry point reads from outside: the two GET endpoints, the POST endpoint, the
  outcome of opening and parsing \<^verbatim>\<open>config.yaml\<close>, and the llama\_index library.
\<close>

record ('c, 'l) env =
  get_questions :: "exn + response"
  get_task_file :: "pyval \<Rightarrow> exn + response"
  post_submit :: "pyval \<Rightarrow> exn + response"
  load_config :: "exn + config"
  lib :: "('c, 'l) llama_index"

text \<open>
  The \<^verbatim>\<open>__main__\<close> block; the result is the exception that ends the program, or the
  \<^verbatim>\<open>status\<close> it prints, and the working directory.
\<close>

definition main :: "('c, 'l) env \<Rightarrow> disk \<Rightarrow> (exn + pyval) \<times> disk" where
  "main ev d =
     (case download_questions_and_files (get_questions ev) (get_task_file ev) d of
        (Inl e, d') \<Rightarrow> (Inl e, d')
      | (Inr questions, d') \<Rightarrow>
          (case load_config ev of
             Inl e \<Rightarrow> (Inl e, d')
           | Inr cfg \<Rightarrow>
               (case GAIAAgent_init (lib ev) cfg of
                  Inl e \<Rightarrow> (Inl e, d')
                | Inr self \<Rightarrow>
                    (let answers = call_answer_questions self questions in
                     case username cfg of
                       None \<Rightarrow> (Inl (KeyError ''username''), d')
                     | Some u \<Rightarrow>
                         (case agent_code cfg of
                            None \<Rightarrow> (Inl (KeyError ''agent_code''), d')
                          | Some c \<Rightarrow>
                              (submit_answers (post_submit ev) u c answers, d'))))))"

section \<open>The file-reading tools (gaia\_agent/tools.py)\<close>

text \<open>
  The filesystem state, as the two tools see it: \<open>read_excel path\<close> is the outcome of
  \<^verbatim>\<open>pd.read_excel(path)\<close> and \<open>read_text path\<close> the outcome of opening the file at
  \<open>path\<close> in text mode and reading it all.  \<open>to_markdown\<close> is
  \<^verbatim>\<open>DataFrame.to_markdown(index=False)\<close>.
\<close>

record 'df filesystem =
  read_excel :: "string \<Rightarrow> exn + 'df"
  read_text :: "string \<Rightarrow> exn + string"

definition read_excel_file ::
  "('df \<Rightarrow> exn + string) \<Rightarrow> 'df filesystem \<Rightarrow> string \<Rightarrow> string" where
  "read_excel_file to_markdown fs file_name =
     (let file_name = ''menu_items.xlsx'' in
      case read_excel fs (''files/'' @ file_name) of
        Inl e \<Rightarrow> ''Error: Failed to read the Excel file. Reason: '' @ exn_str e
      | Inr df \<Rightarrow>
          (case to_markdown df of
             Inl e \<Rightarrow> ''Error: Failed to read the Excel file. Reason: '' @ exn_str e
           | Inr table \<Rightarrow> table))"

definition read_python_script :: "'df filesystem \<Rightarrow> string \<Rightarrow> string" where
  "read_python_script fs file_name =
     (let file_name = ''python_code.py'' in
      case read_text fs (''files/'' @ file_name) of
        Inl e \<Rightarrow> ''Error: Failed to read the Python script. Reason: '' @ exn_str e
      | Inr code \<Rightarrow> code)"

section \<open>Inputs used in the examples\<close>

text \<open>
  Exceptions of the requests library (both are subclasses of
  \<^verbatim>\<open>RequestException\<close>), and responses as the tests of the repository mock them.
\<close>

definition HTTPError :: "string \<Rightarrow> exn" where
  "HTTPError msg =
     \<lparr>exn_class = ''HTTPError'', is_RequestException = True, is_JSONDecodeError = False,
      exn_str = msg\<rparr>"

definition ConnectionError :: "string \<Rightarrow> exn" where
  "ConnectionError msg =
     \<lparr>exn_class = ''ConnectionError'', is_RequestException = True,
      is_JSONDecodeError = False, exn_str = msg\<rparr>"

definition ok_response :: "pyval \<Rightarrow> bytes \<Rightarrow> response" where
  "ok_response body raw =
     \<lparr>raise_for_status = None, json = Inr body, content = raw, response_text = []\<rparr>"

definition error_response :: "exn \<Rightarrow> response" where
  "error_response e =
     \<lparr>raise_for_status = Some e, json = Inr PNone, content = [], response_text = []\<rparr>"

text \<open>
  The exception with which an HTTP exchange fails, if it does: the one the request itself
  raises (a transport failure), or the one \<^verbatim>\<open>raise_for_status()\<close> raises (an HTTP
  error status).
\<close>

definition raised :: "exn + response \<Rightarrow> exn option" where
  "raised got = (case got of Inl e \<Rightarrow> Some e | Inr r \<Rightarrow> raise_for_status r)"

text \<open>
  Two external loops, with a counter of calls as their state.  The first prints three
  lines and answers, as the mocked loop of the repository's test of the runner does; the
  second prints a line and raises.
\<close>

definition paris_loop :: "nat react_agent" where
  "paris_loop prompt n =
     (([''Thought: I need to answer the question.'' @ nl, ''Action: Search'' @ nl,
        ''Observation: Found Paris.'' @ nl],
       Inr ''Paris''), Suc n)"

definition failing_loop :: "nat react_agent" where
  "failing_loop prompt n =
     (([''Thought: I need to answer the question.'' @ nl],
       Inl \<lparr>exn_class = ''RuntimeError'', is_RequestException = False,
            is_JSONDecodeError = False, exn_str = ''model overloaded''\<rparr>), Suc n)"

text \<open>A process whose \<^verbatim>\<open>sys.stdout\<close> is its only stream, with one line already on it.\<close>

definition world0 :: "nat world" where
  "world0 = \<lparr>sys_stdout = 0, streams = [''sentinel before'' @ nl], llm = 0\<rparr>"

text \<open>
  A llama\_index library whose constructors succeed when an API key is set, building the
  first loop, and raise otherwise; no key is set for OpenAI.
\<close>

definition stub_lib :: "(string, nat) llama_index" where
  "stub_lib =
     \<lparr>GoogleGenAI = (\<lambda>model key temp.
          case key of None \<Rightarrow> Inl (ValueError ''API key missing'') | Some k \<Rightarrow> Inr model),
      OpenAI = (\<lambda>model key temp.
          case key of None \<Rightarrow> Inl (ValueError ''API key missing'') | Some k \<Rightarrow> Inr model),
      ReActAgent = (\<lambda>c. Inr paris_loop),
      environ = [''GEMINI_API_KEY'' \<mapsto> ''dummy_gemini_key'']\<rparr>"

definition config_of :: "string option \<Rightarrow> config" where
  "config_of prov =
     \<lparr>provider = prov, model_name = Some ''some-model'', temperature = Some (1 / 2),
      username = Some ''user'', agent_code = Some ''http://code.url''\<rparr>"

text \<open>Three questions, and what the first loop prints on each call.\<close>

definition questions3 :: "question list" where
  "questions3 =
     [\<lparr>task_id = ''T1'', question = ''Q1''\<rparr>, \<lparr>task_id = ''T2'', question = ''Q2''\<rparr>,
      \<lparr>task_id = ''T3'', question = ''Q3''\<rparr>]"

definition paris_trace :: string where
  "paris_trace =
     ''Thought: I need to answer the question.'' @ nl @ ''Action: Search'' @ nl @
     ''Observation: Found Paris.'' @ nl"

text \<open>
  Two states of the directory \<^verbatim>\<open>files/\<close>, with the same spreadsheet and the same
  script and otherwise different; a data frame is stood for by its table.
\<close>

definition fs1 :: "string filesystem" where
  "fs1 =
     \<lparr>read_excel = (\<lambda>path.
        if path = ''files/menu_items.xlsx'' then Inr ''| item | price |''
        else Inl \<lparr>exn_class = ''FileNotFoundError'', is_RequestException = False,
                  is_JSONDecodeError = False, exn_str = ''No such file or directory''\<rparr>),
      read_text = (\<lambda>path.
        if path = ''files/python_code.py'' then Inr ''print(1)''
        else Inl \<lparr>exn_class = ''FileNotFoundError'', is_RequestException = False,
                  is_JSONDecodeError = False, exn_str = ''No such file or directory''\<rparr>)\<rparr>"

definition fs2 :: "string filesystem" where
  "fs2 =
     \<lparr>read_excel = (\<lambda>path.
        if path = ''files/menu_items.xlsx'' then Inr ''| item | price |''
        else Inr ''| other |''),
      read_text = (\<lambda>path.
        if path = ''files/python_code.py'' then Inr ''print(1)'' else Inr ''print(2)'')\<rparr>"

text \<open>
  Question dictionaries; the three questions of the spec's scenario, of which only
  \<^verbatim>\<open>T2\<close> has an attachment; and the five questions of the static table, with every
  attachment present, or with the spreadsheet's alone.
\<close>

definition question_dict :: "string \<Rightarrow> string \<Rightarrow> pyval" where
  "question_dict tid q = PDict [(''task_id'', PStr tid), (''question'', PStr q)]"

definition not_found :: "exn + response" where
  "not_found = Inr (error_response (HTTPError ''404 Client Error: Not Found''))"

definition scenario_questions :: pyval where
  "scenario_questions =
     PList [question_dict ''T1'' ''Q1'', question_dict ''T2'' ''Q2'',
            question_dict ''T3'' ''Q3'']"

definition scenario_get :: "pyval \<Rightarrow> exn + response" where
  "scenario_get tid =
     (if tid = PStr ''T2'' then Inr (ok_response PNone [1, 2, 3]) else not_found)"

definition table_questions :: pyval where
  "table_questions = PList (map (\<lambda>(tid, name). question_dict tid ''Q'') file_names)"

definition table_get :: "pyval \<Rightarrow> exn + response" where
  "table_get tid = Inr (ok_response PNone [1, 2, 3])"

definition spreadsheet_get :: "pyval \<Rightarrow> exn + response" where
  "spreadsheet_get tid =
     (if tid = PStr ''7bd855d8-463d-4ed5-93ca-5fe35145f733''
      then Inr (ok_response PNone [1, 2, 3]) else not_found)"

text \<open>
  A dictionary \<^verbatim>\<open>files\<close> that holds an attachment for each task of the table and for
  one more task.
\<close>

definition full_files :: files where
  "full_files =
     [PStr ''cca530fc-4052-43b2-b130-b30968d8aa44'' \<mapsto> Some [1],
      PStr ''99c9cc74-fdc8-46c6-8f8d-3ce2d3bfeea3'' \<mapsto> Some [2],
      PStr ''f918266a-b3e0-4914-865d-4faa564f1aef'' \<mapsto> Some [3],
      PStr ''1f975693-876d-457b-a649-393859e79bf3'' \<mapsto> Some [4],
      PStr ''7bd855d8-463d-4ed5-93ca-5fe35145f733'' \<mapsto> Some [5],
      PStr ''T9'' \<mapsto> Some [9]]"

text \<open>
  A run of the program in which every step before the submission succeeds.  The submit
  endpoint scores a list of answers; \<^verbatim>\<open>requests.post\<close> cannot serialise anything else
  as the JSON body and raises.
\<close>

definition scoring_post :: "pyval \<Rightarrow> exn + response" where
  "scoring_post data =
     (case getitem data ''answers'' of
        Inr (PList xs) \<Rightarrow>
          Inr (ok_response (PDict [(''score'', PFloat 10), (''message'', PStr ''Success'')]) [])
      | _ \<Rightarrow> Inl (TypeError ''Object of type coroutine is not JSON serializable''))"

definition good_env :: "(string, nat) env" where
  "good_env =
     \<lparr>get_questions = Inr (ok_response table_questions []),
      get_task_file = table_get,
      post_submit = scoring_post,
      load_config = Inr (config_of (Some ''gemini'')),
      lib = stub_lib\<rparr>"

definition table_disk :: disk where
  "table_disk =
     [''files/chess_position.jpg'' \<mapsto> [1, 2, 3],
      ''files/Strawberry pie.mp3'' \<mapsto> [1, 2, 3],
      ''files/python_code.py'' \<mapsto> [1, 2, 3],
      ''files/Homework.mp3'' \<mapsto> [1, 2, 3],
      ''files/menu_items.xlsx'' \<mapsto> [1, 2, 3]]"

section \<open>Properties of the Question Service client\<close>

text \<open>
  C5.  \<^verbatim>\<open>get_file\<close> fails soft.  The requests library raises its transport and HTTP
  errors as \<^verbatim>\<open>RequestException\<close>s; when the exchange can only fail that way,
  \<^verbatim>\<open>get_file\<close> never raises: it returns a value, which is \<^verbatim>\<open>None\<close> (absent) whenever
  the exchange failed, and the bytes of the response body when it did not.
\<close>

theorem get_file_fails_soft:
  "(\<forall>e. raised got = Some e \<longrightarrow> is_RequestException e) \<Longrightarrow>
   (\<exists>v. get_file got = Inr v)
   \<and> (raised got \<noteq> None \<longrightarrow> get_file got = Inr None)
   \<and> (\<forall>r. got = Inr r \<and> raise_for_status r = None \<longrightarrow>
         get_file got = Inr (Some (content r)))"
  by (auto simp: get_file_def get_file_except_def raised_def
           split: sum.splits option.splits)

theorem get_file_fails_soft_witness:
  "get_file (Inr (error_response (HTTPError ''404 Client Error: Not Found''))) = Inr None"
  using get_file_fails_soft
    [of "Inr (error_response (HTTPError ''404 Client Error: Not Found''))"]
  by (simp add: raised_def error_response_def HTTPError_def)

text \<open>
  C9.  When the submit exchange fails, by a transport failure that is a
  \<^verbatim>\<open>RequestException\<close> (or any exception that is not a \<^verbatim>\<open>JSONDecodeError\<close>) or by an
  HTTP error status such as 500, \<^verbatim>\<open>submit_answers\<close> returns \<^verbatim>\<open>None\<close>.  A score
  response is a dictionary, so the result is none: in particular not one with a score of
  zero.
\<close>

theorem submit_answers_failure_is_None:
  "(post (submit_data u c answers) = Inl e
      \<and> (is_RequestException e \<or> \<not> is_JSONDecodeError e))
   \<or> (\<exists>r. post (submit_data u c answers) = Inr r \<and> raise_for_status r = Some e) \<Longrightarrow>
   submit_answers post u c answers = Inr PNone
   \<and> (\<forall>kvs. submit_answers post u c answers \<noteq> Inr (PDict kvs))"
  by (auto simp: submit_answers_def submit_answers_except_def
           split: sum.splits option.splits)

theorem submit_answers_failure_is_None_witness:
  "submit_answers (\<lambda>data. Inr (error_response (HTTPError ''500 Server Error'')))
     ''user'' ''http://code.url'' (PList [])
   = Inr PNone
   \<and> submit_answers (\<lambda>data. Inr (error_response (HTTPError ''500 Server Error'')))
        ''user'' ''http://code.url'' (PList [])
     \<noteq> Inr (PDict [(''score'', PFloat 0), (''message'', PStr ''Success'')])"
  using submit_answers_failure_is_None
    [of "\<lambda>data. Inr (error_response (HTTPError ''500 Server Error''))"
        "''user''" "''http://code.url''" "PList []" "HTTPError ''500 Server Error''"]
  by (simp add: error_response_def)

text \<open>
  C4, as claimed, fails.  A response body that decodes to an empty object instead of an
  array of questions (a malformed response) and a response body that is the empty array
  of questions give the same result, \<^verbatim>\<open>None\<close>.
\<close>

theorem fetch_questions_outcomes_coincide:
  "fetch_questions (Inr (ok_response (PDict []) [])) = Inr PNone
   \<and> fetch_questions (Inr (ok_response (PList []) [])) = Inr PNone"
  by (simp add: fetch_questions_def ok_response_def)

text \<open>
  C4, amended.  \<^verbatim>\<open>fetch_questions\<close> returns the one null result \<^verbatim>\<open>None\<close> when the
  body decodes to the empty sequence or to any other falsy value, and when decoding the
  body raises an exception that is not a \<^verbatim>\<open>RequestException\<close>; a non-empty list of
  questions is returned as it is.
\<close>

theorem fetch_questions_null_result:
  "(raise_for_status r = None \<and> json r = Inr v \<and> \<not> truthy v \<longrightarrow>
      fetch_questions (Inr r) = Inr PNone)
   \<and> (raise_for_status r = None \<and> json r = Inl e \<and> \<not> is_RequestException e \<longrightarrow>
        fetch_questions (Inr r) = Inr PNone)
   \<and> (raise_for_status r = None \<and> json r = Inr (PList (q # qs)) \<longrightarrow>
        fetch_questions (Inr r) = Inr (PList (q # qs)))"
  by (auto simp: fetch_questions_def fetch_questions_except_def)

theorem fetch_questions_null_result_witness:
  "fetch_questions (Inr (ok_response PNone [])) = Inr PNone
   \<and> fetch_questions
       (Inr \<lparr>raise_for_status = None, json = Inl (ValueError ''Invalid JSON''),
             content = [], response_text = ''Invalid JSON response''\<rparr>) = Inr PNone
   \<and> fetch_questions
       (Inr (ok_response
          (PList [PDict [(''task_id'', PStr ''1''), (''question'', PStr ''Q1'')]]) []))
     = Inr (PList [PDict [(''task_id'', PStr ''1''), (''question'', PStr ''Q1'')]])"
  using fetch_questions_null_result [of "ok_response PNone []" PNone]
    fetch_questions_null_result
      [of "\<lparr>raise_for_status = None, json = Inl (ValueError ''Invalid JSON''),
             content = [], response_text = ''Invalid JSON response''\<rparr>"
          _ "ValueError ''Invalid JSON''"]
    fetch_questions_null_result
      [of "ok_response
             (PList [PDict [(''task_id'', PStr ''1''), (''question'', PStr ''Q1'')]]) []"
          _ _ "PDict [(''task_id'', PStr ''1''), (''question'', PStr ''Q1'')]" "[]"]
  by (simp add: ok_response_def ValueError_def)

section \<open>Properties of the agent runner\<close>

text \<open>
  C8.  The constructor accepts the providers \<^verbatim>\<open>gemini\<close> and \<^verbatim>\<open>openai\<close> and no other.
  For any other provider, a missing one included (it counts as the empty name), it raises
  the configuration error of the spec, which in the code is a \<^verbatim>\<open>ValueError\<close> whose
  message ends with the provider's name.  For one of the two providers, an exception of
  the constructor is one that a constructor of the llama\_index library raised.
\<close>

theorem GAIAAgent_init_provider:
  "(config_get (provider cfg) [] \<notin> {''gemini'', ''openai''} \<longrightarrow>
      GAIAAgent_init li cfg
        = Inl (ValueError (''Unsupported provider: '' @ config_get (provider cfg) [])))
   \<and> (config_get (provider cfg) [] \<in> {''gemini'', ''openai''} \<longrightarrow>
        (\<forall>e. GAIAAgent_init li cfg = Inl e \<longrightarrow>
           (\<exists>m k t. GoogleGenAI li m k t = Inl e) \<or> (\<exists>m k t. OpenAI li m k t = Inl e)
           \<or> (\<exists>c. ReActAgent li c = Inl e)))"
  by (auto simp: GAIAAgent_init_def Let_def split: sum.splits if_splits)

theorem GAIAAgent_init_provider_witness:
  "GAIAAgent_init stub_lib (config_of (Some ''unknown''))
     = Inl (ValueError ''Unsupported provider: unknown'')
   \<and> GAIAAgent_init stub_lib (config_of None) = Inl (ValueError ''Unsupported provider: '')
   \<and> GAIAAgent_init stub_lib (config_of (Some ''gemini'')) = Inr \<lparr>agent = paris_loop\<rparr>
   \<and> GAIAAgent_init stub_lib (config_of (Some ''openai''))
       = Inl (ValueError ''API key missing'')"
proof -
  have "GAIAAgent_init stub_lib (config_of (Some ''unknown''))
          = Inl (ValueError ''Unsupported provider: unknown'')"
    using GAIAAgent_init_provider [of "config_of (Some ''unknown'')" stub_lib]
    by (simp add: config_of_def config_get_def)
  moreover have "GAIAAgent_init stub_lib (config_of None)
          = Inl (ValueError ''Unsupported provider: '')"
    using GAIAAgent_init_provider [of "config_of None" stub_lib]
    by (simp add: config_of_def config_get_def)
  moreover have "GAIAAgent_init stub_lib (config_of (Some ''gemini''))
          = Inr \<lparr>agent = paris_loop\<rparr>"
    by (simp add: GAIAAgent_init_def config_of_def config_get_def stub_lib_def)
  moreover have "GAIAAgent_init stub_lib (config_of (Some ''openai''))
          = Inl (ValueError ''API key missing'')"
    by (simp add: GAIAAgent_init_def config_of_def config_get_def stub_lib_def)
  ultimately show ?thesis by simp
qed

text \<open>What the prints of one call of the loop do to the state.\<close>

lemma print_all_sys_stdout: "sys_stdout (print_all ss w) = sys_stdout w"
  by (induction ss arbitrary: w) (simp_all add: print_stdout_def)

lemma print_all_llm: "llm (print_all ss w) = llm w"
  by (induction ss arbitrary: w) (simp_all add: print_stdout_def)

lemma print_all_streams:
  "sys_stdout w < length (streams w) \<Longrightarrow>
   streams (print_all ss w)
     = (streams w)[sys_stdout w := streams w ! sys_stdout w @ concat ss]"
proof (induction ss arbitrary: w)
  case Nil
  then show ?case by simp
next
  case (Cons s ss)
  have "sys_stdout (print_stdout s w) < length (streams (print_stdout s w))"
    using Cons.prems by (simp add: print_stdout_def)
  from Cons.IH [OF this] Cons.prems show ?case
    by (simp add: print_stdout_def)
qed

text \<open>
  The runner with capture: its result and final state, from what the loop does on the
  prompt.
\<close>

lemma GAIAAgent_run_capture:
  assumes "agent self (general_instructions_format q) (llm w) = ((printed, res), l')"
  shows "GAIAAgent_run self q True w
           = (case res of Inl e \<Rightarrow> Inl e | Inr r \<Rightarrow> Inr (r, concat printed),
              w\<lparr>streams := streams w @ [concat printed], llm := l'\<rparr>)"
proof -
  let ?w1 = "w\<lparr>streams := streams w @ [[]], sys_stdout := length (streams w)\<rparr>"
  have "streams (print_all printed (?w1\<lparr>llm := l'\<rparr>)) = streams w @ [concat printed]"
    by (simp add: print_all_streams)
  moreover have "llm (print_all printed (?w1\<lparr>llm := l'\<rparr>)) = l'"
    by (simp add: print_all_llm)
  moreover have "sys_stdout (print_all printed (?w1\<lparr>llm := l'\<rparr>)) = length (streams w)"
    by (simp add: print_all_sys_stdout)
  ultimately have "print_all printed (?w1\<lparr>llm := l'\<rparr>)
      = w\<lparr>streams := streams w @ [concat printed], llm := l',
          sys_stdout := length (streams w)\<rparr>"
    by (intro world.equality) simp_all
  with assms show ?thesis
    by (simp add: GAIAAgent_run_def await_achat_def Let_def split: sum.splits)
qed

lemma GAIAAgent_run_no_capture:
  assumes "agent self (general_instructions_format q) (llm w) = ((printed, res), l')"
  shows "GAIAAgent_run self q False w
           = (case res of Inl e \<Rightarrow> Inl e | Inr r \<Rightarrow> Inr (r, []),
              print_all printed (w\<lparr>llm := l'\<rparr>))"
  using assms
  by (simp add: GAIAAgent_run_def await_achat_def Let_def split: sum.splits)

text \<open>
  C6.  Without capture the reasoning text is empty: whenever the runner returns, the second
  component is the empty string, and it returns whenever the loop does, whatever the loop
  printed.
\<close>

theorem GAIAAgent_run_without_reasoning:
  "(\<forall>r reasoning. fst (GAIAAgent_run self q False w) = Inr (r, reasoning) \<longrightarrow> reasoning = [])
   \<and> (\<forall>printed r l'.
        agent self (general_instructions_format q) (llm w) = ((printed, Inr r), l') \<longrightarrow>
        fst (GAIAAgent_run self q False w) = Inr (r, []))"
proof -
  obtain printed res l' where
    a: "agent self (general_instructions_format q) (llm w) = ((printed, res), l')"
    by (metis surj_pair)
  show ?thesis
    using GAIAAgent_run_no_capture [OF a] a by (auto split: sum.splits)
qed

theorem GAIAAgent_run_without_reasoning_witness:
  "fst (GAIAAgent_run \<lparr>agent = paris_loop\<rparr> ''What is the capital of France?'' False world0)
     = Inr (''Paris'', [])"
  using GAIAAgent_run_without_reasoning
    [of "\<lparr>agent = paris_loop\<rparr>" "''What is the capital of France?''" world0]
  by (simp add: paris_loop_def)

text \<open>
  C7.  With capture, \<^verbatim>\<open>sys.stdout\<close> is bound after the call to the object it was bound
  to before, whether the call returns or raises (the statement is about the state the
  call leaves, on both ways out); every stream that existed before, the one of
  \<^verbatim>\<open>sys.stdout\<close> among them, holds the text it held; what the loop printed is on the
  new stream alone.
\<close>

theorem GAIAAgent_run_restores_stdout:
  "sys_stdout w < length (streams w) \<Longrightarrow>
   sys_stdout (snd (GAIAAgent_run self q True w)) = sys_stdout w
   \<and> streams (snd (GAIAAgent_run self q True w)) ! sys_stdout w = streams w ! sys_stdout w
   \<and> take (length (streams w)) (streams (snd (GAIAAgent_run self q True w))) = streams w
   \<and> (\<forall>printed res l'.
        agent self (general_instructions_format q) (llm w) = ((printed, res), l') \<longrightarrow>
        streams (snd (GAIAAgent_run self q True w)) = streams w @ [concat printed])"
proof -
  assume lt: "sys_stdout w < length (streams w)"
  obtain printed res l' where
    a: "agent self (general_instructions_format q) (llm w) = ((printed, res), l')"
    by (metis surj_pair)
  show ?thesis
    using GAIAAgent_run_capture [OF a] a lt by (simp add: nth_append)
qed

theorem GAIAAgent_run_restores_stdout_witness:
  "fst (GAIAAgent_run \<lparr>agent = failing_loop\<rparr> ''Capital of France?'' True world0)
     = Inl \<lparr>exn_class = ''RuntimeError'', is_RequestException = False,
            is_JSONDecodeError = False, exn_str = ''model overloaded''\<rparr>
   \<and> sys_stdout (snd (GAIAAgent_run \<lparr>agent = failing_loop\<rparr> ''Capital of France?'' True world0))
       = 0
   \<and> streams (snd (GAIAAgent_run \<lparr>agent = failing_loop\<rparr> ''Capital of France?'' True world0))
       = [''sentinel before'' @ nl, ''Thought: I need to answer the question.'' @ nl]"
proof -
  have lt: "sys_stdout world0 < length (streams world0)"
    by (simp add: world0_def)
  have "fst (GAIAAgent_run \<lparr>agent = failing_loop\<rparr> ''Capital of France?'' True world0)
     = Inl \<lparr>exn_class = ''RuntimeError'', is_RequestException = False,
            is_JSONDecodeError = False, exn_str = ''model overloaded''\<rparr>"
    by (simp add: GAIAAgent_run_def await_achat_def failing_loop_def Let_def)
  with GAIAAgent_run_restores_stdout
         [OF lt, of "\<lparr>agent = failing_loop\<rparr>" "''Capital of France?''"]
  show ?thesis
    by (simp add: failing_loop_def world0_def)
qed

section \<open>Properties of the batch orchestrator\<close>

text \<open>The loop appends one answer per question, with the question's task id, in order.\<close>

lemma answer_loop_task_ids:
  "answer_loop self qs acc w = (Inr answers, w') \<Longrightarrow>
   map answer_task_id answers = map answer_task_id acc @ map task_id qs"
proof (induction qs arbitrary: acc w)
  case Nil
  then show ?case by simp
next
  case (Cons qd rest)
  obtain res w1 where run: "GAIAAgent_run self (question qd) True w = (res, w1)"
    by (metis surj_pair)
  show ?case
  proof (cases res)
    case (Inl e)
    with run Cons.prems show ?thesis by simp
  next
    case (Inr p)
    obtain response reasoning where p: "p = (response, reasoning)"
      by (metis surj_pair)
    let ?ans = "\<lparr>answer_task_id = task_id qd, submitted_answer = response,
                  reasoning_trace = reasoning\<rparr>"
    from run Inr p Cons.prems
    have "answer_loop self rest (acc @ [?ans]) w1 = (Inr answers, w')"
      by simp
    from Cons.IH [OF this] show ?thesis by simp
  qed
qed

text \<open>When the external loop never raises, the orchestrator returns.\<close>

lemma answer_loop_returns:
  assumes "\<forall>p l. \<exists>printed r l'. agent self p l = ((printed, Inr r), l')"
  shows "\<exists>answers w'. answer_loop self qs acc w = (Inr answers, w')"
proof (induction qs arbitrary: acc w)
  case Nil
  show ?case by simp
next
  case (Cons qd rest)
  from assms obtain printed r l' where
    a: "agent self (general_instructions_format (question qd)) (llm w) = ((printed, Inr r), l')"
    by blast
  from GAIAAgent_run_capture [OF a] Cons.IH show ?case
    by simp
qed

text \<open>
  C2.  Whenever the orchestrator returns its answer sequence, the sequence is as long as the
  question sequence and its \<open>i\<close>-th record carries the task id of the \<open>i\<close>-th question;
  and it does return one when no call of the external loop raises.
\<close>

theorem answer_questions_one_per_question:
  "(\<forall>answers w'. answer_questions self qs w = (Inr answers, w') \<longrightarrow>
      length answers = length qs
      \<and> (\<forall>i<length qs. answer_task_id (answers ! i) = task_id (qs ! i)))
   \<and> ((\<forall>p l. \<exists>printed r l'. agent self p l = ((printed, Inr r), l')) \<longrightarrow>
        (\<exists>answers w'. answer_questions self qs w = (Inr answers, w')))"
proof (intro conjI allI impI)
  fix answers w'
  assume "answer_questions self qs w = (Inr answers, w')"
  then have m: "map answer_task_id answers = map task_id qs"
    using answer_loop_task_ids [of self qs "[]" w answers w']
    by (simp add: answer_questions_def)
  then show len: "length answers = length qs"
    by (rule map_eq_imp_length_eq)
  fix i
  assume "i < length qs"
  with len have "map answer_task_id answers ! i = answer_task_id (answers ! i)"
    and "map task_id qs ! i = task_id (qs ! i)"
    by simp_all
  with m show "answer_task_id (answers ! i) = task_id (qs ! i)"
    by simp
next
  assume "\<forall>p l. \<exists>printed r l'. agent self p l = ((printed, Inr r), l')"
  then show "\<exists>answers w'. answer_questions self qs w = (Inr answers, w')"
    unfolding answer_questions_def by (rule answer_loop_returns)
qed

theorem answer_questions_one_per_question_witness:
  "fst (answer_questions \<lparr>agent = paris_loop\<rparr> questions3 world0)
     = Inr [\<lparr>answer_task_id = ''T1'', submitted_answer = ''Paris'',
              reasoning_trace = paris_trace\<rparr>,
            \<lparr>answer_task_id = ''T2'', submitted_answer = ''Paris'',
              reasoning_trace = paris_trace\<rparr>,
            \<lparr>answer_task_id = ''T3'', submitted_answer = ''Paris'',
              reasoning_trace = paris_trace\<rparr>]"
proof -
  have run: "GAIAAgent_run \<lparr>agent = paris_loop\<rparr> q True w
      = (Inr (''Paris'', paris_trace),
         w\<lparr>streams := streams w @ [paris_trace], llm := Suc (llm w)\<rparr>)" for q and w :: "nat world"
    using GAIAAgent_run_capture [of "\<lparr>agent = paris_loop\<rparr>" q w]
    by (simp add: paris_loop_def paris_trace_def)
  have "\<forall>p l. \<exists>printed r l'. agent \<lparr>agent = paris_loop\<rparr> p l = ((printed, Inr r), l')"
    by (simp add: paris_loop_def)
  with answer_questions_one_per_question [of "\<lparr>agent = paris_loop\<rparr>" questions3 world0]
  obtain answers w' where
    "answer_questions \<lparr>agent = paris_loop\<rparr> questions3 world0 = (Inr answers, w')"
    by blast
  then show ?thesis
    by (simp add: answer_questions_def questions3_def run)
qed

section \<open>Properties of the file-reading tools\<close>

text \<open>
  C10.  The two tools ignore their argument.  In two states of the filesystem that agree
  on the spreadsheet \<^verbatim>\<open>files/menu_items.xlsx\<close>, \<^verbatim>\<open>read_excel_file\<close> gives the same
  result for any two arguments, and so does \<^verbatim>\<open>read_python_script\<close> in two states that
  agree on \<^verbatim>\<open>files/python_code.py\<close>; in particular in one and the same state.
\<close>

theorem file_tools_ignore_file_name:
  "(read_excel fsa ''files/menu_items.xlsx'' = read_excel fsb ''files/menu_items.xlsx'' \<longrightarrow>
      read_excel_file to_md fsa a = read_excel_file to_md fsb b)
   \<and> (read_text fsa ''files/python_code.py'' = read_text fsb ''files/python_code.py'' \<longrightarrow>
        read_python_script fsa a = read_python_script fsb b)
   \<and> read_excel_file to_md fsa a = read_excel_file to_md fsa b
   \<and> read_python_script fsa a = read_python_script fsa b"
  by (simp add: read_excel_file_def read_python_script_def)

theorem file_tools_ignore_file_name_witness:
  "read_excel_file Inr fs1 ''menu_items.xlsx'' = read_excel_file Inr fs2 ''other.xlsx''
   \<and> read_python_script fs1 ''python_code.py'' = read_python_script fs2 ''other.py''
   \<and> read_excel_file Inr fs2 ''other.xlsx'' = ''| item | price |''
   \<and> read_python_script fs2 ''other.py'' = ''print(1)''"
proof -
  have "read_excel_file Inr fs2 ''other.xlsx'' = ''| item | price |''"
    and "read_python_script fs2 ''other.py'' = ''print(1)''"
    by (simp_all add: read_excel_file_def read_python_script_def fs2_def)
  with file_tools_ignore_file_name
         [of fs1 fs2 Inr "''menu_items.xlsx''" "''other.xlsx''"]
       file_tools_ignore_file_name
         [of fs1 fs2 Inr "''python_code.py''" "''other.py''"]
  show ?thesis
    by (simp add: fs1_def fs2_def)
qed

section \<open>Properties of the file materializer and the entry point\<close>

text \<open>
  C3, as claimed, fails.  In the scenario of three fetched questions \<^verbatim>\<open>T1\<close>,
  \<^verbatim>\<open>T2\<close>, \<^verbatim>\<open>T3\<close> with an attachment for \<^verbatim>\<open>T2\<close> only, materialization does not
  complete and writes no file: the first task of the static table was not fetched.  And
  when the tasks of the table are fetched and the first has no attachment, the
  materializer does not skip it: it raises, having emptied that task's file.
\<close>

theorem download_questions_and_files_no_skip:
  "download_questions_and_files (Inr (ok_response scenario_questions [])) scenario_get
       Map.empty
     = (Inl (KeyError ''cca530fc-4052-43b2-b130-b30968d8aa44''), Map.empty)
   \<and> download_questions_and_files (Inr (ok_response table_questions [])) spreadsheet_get
         Map.empty
       = (Inl (TypeError ''a bytes-like object is required''),
          [''files/chess_position.jpg'' \<mapsto> []])"
proof -
  have "download_questions_and_files (Inr (ok_response scenario_questions []))
          scenario_get Map.empty
        = (Inl (KeyError ''cca530fc-4052-43b2-b130-b30968d8aa44''), Map.empty)"
    by (simp add: download_questions_and_files_def fetch_questions_def ok_response_def
        scenario_questions_def question_dict_def scenario_get_def not_found_def
        error_response_def HTTPError_def get_file_def get_file_except_def file_names_def)
  moreover
  have "download_questions_and_files (Inr (ok_response table_questions []))
          spreadsheet_get Map.empty
        = (Inl (TypeError ''a bytes-like object is required''),
           [''files/chess_position.jpg'' \<mapsto> []])"
    by (simp add: download_questions_and_files_def fetch_questions_def ok_response_def
        table_questions_def question_dict_def spreadsheet_get_def not_found_def
        error_response_def HTTPError_def get_file_def get_file_except_def file_names_def)
  ultimately show ?thesis by simp
qed

text \<open>
  C3, amended.  The materializer writes the files of the static table and no other: when
  the attachment of every task of the table is present, it completes, each file of the
  table holds exactly the bytes of its task's attachment, and every other path of the
  directory is as it was, so that a fetched task outside the table gets no file, with an
  attachment or without.
\<close>

theorem write_files_table:
  "(\<forall>(tid, name) \<in> set file_names. \<exists>b. files (PStr tid) = Some (Some b)) \<Longrightarrow>
   fst (write_files file_names files d) = None
   \<and> (\<forall>(tid, name) \<in> set file_names.
        files (PStr tid) = Some (snd (write_files file_names files d) (''files/'' @ name)))
   \<and> (\<forall>p. p \<notin> (\<lambda>(tid, name). ''files/'' @ name) ` set file_names \<longrightarrow>
        snd (write_files file_names files d) p = d p)"
  by (auto simp: file_names_def)

theorem write_files_table_witness:
  "write_files file_names full_files Map.empty
     = (None,
        [''files/chess_position.jpg'' \<mapsto> [1], ''files/Strawberry pie.mp3'' \<mapsto> [2],
         ''files/python_code.py'' \<mapsto> [3], ''files/Homework.mp3'' \<mapsto> [4],
         ''files/menu_items.xlsx'' \<mapsto> [5]])"
proof -
  have "\<forall>(tid, name) \<in> set file_names. \<exists>b. full_files (PStr tid) = Some (Some b)"
    by (simp add: file_names_def full_files_def)
  from write_files_table [OF this, of Map.empty]
  have "fst (write_files file_names full_files Map.empty) = None"
    by simp
  moreover have "snd (write_files file_names full_files Map.empty)
     = [''files/chess_position.jpg'' \<mapsto> [1], ''files/Strawberry pie.mp3'' \<mapsto> [2],
        ''files/python_code.py'' \<mapsto> [3], ''files/Homework.mp3'' \<mapsto> [4],
        ''files/menu_items.xlsx'' \<mapsto> [5]]"
    by (simp add: file_names_def full_files_def)
  ultimately show ?thesis
    by (simp add: prod_eq_iff)
qed

text \<open>
  C1.  The entry point does not pass the answers on.  In a run where the questions are
  fetched, the five files are written, the configuration is read and the agent is built,
  the value bound to \<^verbatim>\<open>answers\<close> is the coroutine object of the call that was never
  awaited; \<^verbatim>\<open>requests.post\<close> cannot send it, and the status printed is \<^verbatim>\<open>None\<close>,
  where a list of answers would have been scored.
\<close>

theorem main_submits_coroutine:
  "main good_env Map.empty = (Inr PNone, table_disk)
   \<and> call_answer_questions \<lparr>agent = paris_loop\<rparr> table_questions = PCoroutine
   \<and> submit_answers (post_submit good_env) ''user'' ''http://code.url'' PCoroutine
       = Inr PNone
   \<and> submit_answers (post_submit good_env) ''user'' ''http://code.url'' (PList [])
       = Inr (PDict [(''score'', PFloat 10), (''message'', PStr ''Success'')])"
proof -
  have dl: "download_questions_and_files (get_questions good_env) (get_task_file good_env)
              Map.empty
            = (Inr table_questions, table_disk)"
    by (simp add: good_env_def download_questions_and_files_def fetch_questions_def
        ok_response_def table_questions_def question_dict_def table_get_def get_file_def
        file_names_def table_disk_def)
  have init: "GAIAAgent_init (lib good_env) (config_of (Some ''gemini''))
                = Inr \<lparr>agent = paris_loop\<rparr>"
    by (simp add: good_env_def GAIAAgent_init_def config_of_def config_get_def stub_lib_def)
  have sub1: "submit_answers (post_submit good_env) ''user'' ''http://code.url'' PCoroutine
                = Inr PNone"
    by (simp add: good_env_def scoring_post_def submit_answers_def submit_data_def
        submit_answers_except_def TypeError_def)
  have sub2: "submit_answers (post_submit good_env) ''user'' ''http://code.url'' (PList [])
                = Inr (PDict [(''score'', PFloat 10), (''message'', PStr ''Success'')])"
    by (simp add: good_env_def scoring_post_def submit_answers_def submit_data_def
        ok_response_def)
  have cfg: "load_config good_env = Inr (config_of (Some ''gemini''))"
    by (simp add: good_env_def)
  have "main good_env Map.empty = (Inr PNone, table_disk)"
    by (simp add: main_def dl cfg init call_answer_questions_def sub1)
       (simp add: config_of_def sub1)
  with sub1 sub2 show ?thesis
    by (simp add: call_answer_questions_def)
qed

end
